theory Spec2Isabelle
  imports Main
begin

section \<open>The todo service: its request pipeline over a document collection\<close>

text \<open>
  The program is the HTTP service of \<^verbatim>\<open>package main\<close> (the compiling revision of
  \<^verbatim>\<open>main.go\<close>, with \<^verbatim>\<open>package database\<close> beside it). Each handler is embedded as a
  function from what the handler reads (the request, the clock, the answers of the
  storage client, the collection) to what it does: the responses it writes with
  \<^verbatim>\<open>rnd.JSON\<close>, the calls it issues on the collection, the collection afterwards, and
  how it ends (it returns, it panics, or it ends the process).

  The libraries the handlers call (the router, the JSON decoder, the validator, the
  BSON driver and the server behind it) are not part of the program; they are
  modelled as far as the handlers use them, each where it is introduced. What a
  handler prints or logs, and the contexts it creates and cancels, are left out: a
  deadline that passes shows as a failure of the storage call. Of the earlier
  \<^verbatim>\<open>src/main.go\<close>, which does not compile, only the table of routes is modelled.
\<close>

subsection \<open>Errors and identifiers\<close>

text \<open>
  The error values the handlers pass on. \<open>ErrInvalidHex\<close>, \<open>InvalidByteError\<close> and
  \<open>ErrLength\<close> are those of \<^verbatim>\<open>primitive.ObjectIDFromHex\<close> and \<^verbatim>\<open>encoding/hex\<close>;
  \<open>SyntaxError\<close> stands for what \<^verbatim>\<open>json.Decoder.Decode\<close> reports, \<open>ValidationError\<close>
  for a failed field of \<^verbatim>\<open>validate.Struct\<close> (by field name), \<open>DecodeError\<close> for a
  document value of the wrong type under a key, \<open>DuplicateKey\<close> and \<open>UnknownModifier\<close>
  for a write the server refuses, and \<open>BackendError\<close> for any other failure the
  storage client reports (no connection, deadline exceeded).
\<close>

datatype error =
    ErrInvalidHex
  | InvalidByteError char
  | ErrLength
  | SyntaxError string
  | ValidationError string
  | DecodeError string
  | DuplicateKey
  | UnknownModifier string
  | BackendError string

text \<open>\<^verbatim>\<open>primitive.ObjectID\<close> is \<^verbatim>\<open>[12]byte\<close>: a list of twelve numbers below 256.\<close>

type_synonym ObjectID = "nat list"

text \<open>\<^verbatim>\<open>time.Time\<close> as nanoseconds since the zero time, so that the zero value is 0.\<close>

type_synonym time = int

definition fromHexChar :: "char \<Rightarrow> nat option" where
  "fromHexChar c =
     (let n = (of_char c :: nat) in
      if 48 \<le> n \<and> n \<le> 57 then Some (n - 48)
      else if 97 \<le> n \<and> n \<le> 102 then Some (n - 97 + 10)
      else if 65 \<le> n \<and> n \<le> 70 then Some (n - 65 + 10)
      else None)"

text \<open>\<^verbatim>\<open>hex.Decode\<close>: two digits a byte; the first bad digit is reported, then an odd length.\<close>

fun hex_Decode :: "string \<Rightarrow> error + nat list" where
  "hex_Decode [] = Inr []"
| "hex_Decode [p] =
     (case fromHexChar p of None \<Rightarrow> Inl (InvalidByteError p) | Some a \<Rightarrow> Inl ErrLength)"
| "hex_Decode (p # q # rest) =
     (case fromHexChar p of
        None \<Rightarrow> Inl (InvalidByteError p)
      | Some a \<Rightarrow>
          (case fromHexChar q of
             None \<Rightarrow> Inl (InvalidByteError q)
           | Some b \<Rightarrow>
               (case hex_Decode rest of
                  Inl e \<Rightarrow> Inl e
                | Inr bs \<Rightarrow> Inr ((a * 16 + b) # bs))))"

text \<open>
  \<^verbatim>\<open>primitive.ObjectIDFromHex\<close>: a string of any length but 24 is \<open>ErrInvalidHex\<close>;
  otherwise the twelve bytes its hexadecimal digits spell, or the decoder's error.
\<close>

definition ObjectIDFromHex :: "string \<Rightarrow> error + ObjectID" where
  "ObjectIDFromHex s = (if length s \<noteq> 24 then Inl ErrInvalidHex else hex_Decode s)"

definition hex_digit :: "nat \<Rightarrow> char" where
  "hex_digit n = ''0123456789abcdef'' ! (n mod 16)"

text \<open>\<^verbatim>\<open>ObjectID.Hex\<close>: two lower-case digits a byte.\<close>

definition Hex :: "ObjectID \<Rightarrow> string" where
  "Hex oid = concat (map (\<lambda>b. [hex_digit (b div 16), hex_digit b]) oid)"

subsection \<open>\<^verbatim>\<open>strings.TrimSpace\<close>\<close>

text \<open>
  The white space of \<^verbatim>\<open>unicode.IsSpace\<close>, each code point as its UTF-8 bytes: tab,
  line feed, vertical tab, form feed, carriage return, space, U+0085, U+00A0, U+1680,
  U+2000 to U+200A, U+2028, U+2029, U+202F, U+205F and U+3000. A string starts (ends)
  with a white-space rune exactly when it starts (ends) with one of these byte
  sequences.
\<close>

definition unicode_space :: "string list" where
  "unicode_space =
     [[CHR 0x09], [CHR 0x0A], [CHR 0x0B], [CHR 0x0C], [CHR 0x0D], [CHR 0x20],
      [CHR 0xC2, CHR 0x85], [CHR 0xC2, CHR 0xA0],
      [CHR 0xE1, CHR 0x9A, CHR 0x80],
      [CHR 0xE2, CHR 0x80, CHR 0x80], [CHR 0xE2, CHR 0x80, CHR 0x81],
      [CHR 0xE2, CHR 0x80, CHR 0x82], [CHR 0xE2, CHR 0x80, CHR 0x83],
      [CHR 0xE2, CHR 0x80, CHR 0x84], [CHR 0xE2, CHR 0x80, CHR 0x85],
      [CHR 0xE2, CHR 0x80, CHR 0x86], [CHR 0xE2, CHR 0x80, CHR 0x87],
      [CHR 0xE2, CHR 0x80, CHR 0x88], [CHR 0xE2, CHR 0x80, CHR 0x89],
      [CHR 0xE2, CHR 0x80, CHR 0x8A],
      [CHR 0xE2, CHR 0x80, CHR 0xA8], [CHR 0xE2, CHR 0x80, CHR 0xA9],
      [CHR 0xE2, CHR 0x80, CHR 0xAF],
      [CHR 0xE2, CHR 0x81, CHR 0x9F],
      [CHR 0xE3, CHR 0x80, CHR 0x80]]"

text \<open>The white-space rune a string starts with, if it starts with one.\<close>

definition leading_space :: "string list \<Rightarrow> string \<Rightarrow> string option" where
  "leading_space ws s = find (\<lambda>w. w \<noteq> [] \<and> take (length w) s = w) ws"

function TrimLeft :: "string list \<Rightarrow> string \<Rightarrow> string" where
  "TrimLeft ws s =
     (case leading_space ws s of
        None \<Rightarrow> s
      | Some w \<Rightarrow> TrimLeft ws (drop (length w) s))"
  by pat_completeness auto
termination
proof (relation "measure (\<lambda>(ws, s). length s)")
  show "wf (measure (\<lambda>(ws :: string list, s :: string). length s))"
    by simp
next
  fix ws :: "string list" and s w :: string
  assume "leading_space ws s = Some w"
  then have w: "w \<noteq> []" and t: "take (length w) s = w"
    by (auto simp: leading_space_def find_Some_iff)
  from t have "length (take (length w) s) = length w"
    by simp
  then have "length w \<le> length s"
    by simp
  with w have "length s - length w < length s"
    by (cases w) auto
  then show "((ws, drop (length w) s), (ws, s)) \<in> measure (\<lambda>(ws, s). length s)"
    by simp
qed

text \<open>
  \<^verbatim>\<open>strings.TrimSpace\<close>: the leading white space goes first, then the trailing one
  (the same scan over the reversed string, against the reversed byte sequences).
\<close>

definition TrimSpace :: "string \<Rightarrow> string" where
  "TrimSpace s =
     rev (TrimLeft (map rev unicode_space) (rev (TrimLeft unicode_space s)))"

subsection \<open>Documents and the collection\<close>

text \<open>
  A BSON document (\<^verbatim>\<open>bson.D\<close>, \<^verbatim>\<open>bson.M\<close>) is a list of keys with their values; the
  values the service stores are strings, booleans, times and object identifiers. The
  collection is the list of its documents.
\<close>

datatype bson_value =
    BString string
  | BBoolean bool
  | BDateTime time
  | BObjectID ObjectID

type_synonym document = "(string \<times> bson_value) list"

text \<open>A filter of equalities matches a document that has each of its values under its key.\<close>

definition matches :: "document \<Rightarrow> document \<Rightarrow> bool" where
  "matches flt doc = list_all (\<lambda>(k, v). map_of doc k = Some v) flt"

text \<open>\<^verbatim>\<open>$set\<close> of one field: the value under an existing key is replaced, a new key is added.\<close>

fun set_field :: "string \<Rightarrow> bson_value \<Rightarrow> document \<Rightarrow> document" where
  "set_field k v [] = [(k, v)]"
| "set_field k v ((k', v') # doc) =
     (if k' = k then (k, v) # doc else (k', v') # set_field k v doc)"

definition apply_set :: "document \<Rightarrow> document \<Rightarrow> document" where
  "apply_set sets doc = foldl (\<lambda>d (k, v). set_field k v d) doc sets"

fun update_first :: "('a \<Rightarrow> bool) \<Rightarrow> ('a \<Rightarrow> 'a) \<Rightarrow> 'a list \<Rightarrow> 'a list" where
  "update_first P f [] = []"
| "update_first P f (x # xs) = (if P x then f x # xs else x # update_first P f xs)"

fun delete_first :: "('a \<Rightarrow> bool) \<Rightarrow> 'a list \<Rightarrow> 'a list" where
  "delete_first P [] = []"
| "delete_first P (x # xs) = (if P x then xs else x # delete_first P xs)"

record InsertOneResult =
  InsertedID :: "bson_value option"

record UpdateResult =
  MatchedCount :: nat
  ModifiedCount :: nat
  UpsertedCount :: nat
  UpsertedID :: "bson_value option"

record DeleteResult =
  DeletedCount :: nat

text \<open>
  The four operations of the storage client on the collection. Each takes the failure
  the client reports for this call, if any (then the collection is as before), and
  otherwise does what the server does: \<open>Find\<close> gives the matching documents;
  \<open>InsertOne\<close> adds the document unless its \<^verbatim>\<open>_id\<close> is taken; \<open>UpdateOne\<close> applies
  \<^verbatim>\<open>$set\<close> to the first matching document, and with \<^verbatim>\<open>upsert\<close> and no match adds a
  document made of the filter's equalities and the fields set; \<open>DeleteOne\<close> removes the
  first matching document, and matching none is no error.

  The model covers the calls the handlers issue: a filter is empty or the equality on
  \<^verbatim>\<open>_id\<close>, an update is one \<^verbatim>\<open>$set\<close>, and a document to insert carries its \<^verbatim>\<open>_id\<close>
  (the server would make an identifier for a document that has none; the model adds the
  document as it stands). The time an update sets is a whole second, which the cut to
  the millisecond leaves as it is.
\<close>

definition Find :: "error option \<Rightarrow> document \<Rightarrow> document list \<Rightarrow> error + document list" where
  "Find failure flt coll =
     (case failure of
        Some e \<Rightarrow> Inl e
      | None \<Rightarrow> Inr (filter (matches flt) coll))"

definition InsertOne ::
  "error option \<Rightarrow> document \<Rightarrow> document list \<Rightarrow> (error + InsertOneResult) \<times> document list" where
  "InsertOne failure doc coll =
     (case failure of
        Some e \<Rightarrow> (Inl e, coll)
      | None \<Rightarrow>
          if map_of doc ''_id'' \<in> set (map (\<lambda>d. map_of d ''_id'') coll)
          then (Inl DuplicateKey, coll)
          else (Inr \<lparr>InsertedID = map_of doc ''_id''\<rparr>, coll @ [doc]))"

definition UpdateOne ::
  "error option \<Rightarrow> document \<Rightarrow> (string \<times> document) list \<Rightarrow> bool \<Rightarrow> document list
     \<Rightarrow> (error + UpdateResult) \<times> document list" where
  "UpdateOne failure flt update upsert coll =
     (case failure of
        Some e \<Rightarrow> (Inl e, coll)
      | None \<Rightarrow>
          (case update of
             [(operator, sets)] \<Rightarrow>
               if operator \<noteq> ''$set'' then (Inl (UnknownModifier operator), coll)
               else
                 (case find (matches flt) coll of
                    Some doc \<Rightarrow>
                      (Inr \<lparr>MatchedCount = 1,
                            ModifiedCount = (if apply_set sets doc = doc then 0 else 1),
                            UpsertedCount = 0, UpsertedID = None\<rparr>,
                       update_first (matches flt) (apply_set sets) coll)
                  | None \<Rightarrow>
                      if upsert
                      then (Inr \<lparr>MatchedCount = 0, ModifiedCount = 0, UpsertedCount = 1,
                                 UpsertedID = map_of (apply_set sets flt) ''_id''\<rparr>,
                            coll @ [apply_set sets flt])
                      else (Inr \<lparr>MatchedCount = 0, ModifiedCount = 0, UpsertedCount = 0,
                                 UpsertedID = None\<rparr>, coll))
           | _ \<Rightarrow> (Inl (UnknownModifier []), coll)))"

definition DeleteOne ::
  "error option \<Rightarrow> document \<Rightarrow> document list \<Rightarrow> (error + DeleteResult) \<times> document list" where
  "DeleteOne failure flt coll =
     (case failure of
        Some e \<Rightarrow> (Inl e, coll)
      | None \<Rightarrow>
          (Inr \<lparr>DeletedCount = (if list_ex (matches flt) coll then 1 else 0)\<rparr>,
           delete_first (matches flt) coll))"

text \<open>The server keeps \<^verbatim>\<open>_id\<close> unique: every document has one, and no two share it.\<close>

definition unique_ids :: "document list \<Rightarrow> bool" where
  "unique_ids coll =
     (list_all (\<lambda>d. map_of d ''_id'' \<noteq> None) coll \<and> distinct (map (\<lambda>d. map_of d ''_id'') coll))"

subsection \<open>The structs, the request and what a handler does\<close>

record todoModel =
  ID :: ObjectID
  Title :: string
  IsCompleted :: bool
  CreatedAt :: time
  UpdatedAt :: time

record todo =
  ID :: string
  Title :: string
  IsCompleted :: bool
  CreatedAt :: time
  UpdatedAt :: time

text \<open>A BSON datetime counts milliseconds: the driver writes a time cut to the millisecond.\<close>

definition millisecond :: "time \<Rightarrow> time" where
  "millisecond t = t - t mod 1000000"

text \<open>
  The document the driver stores for a \<^verbatim>\<open>todoModel\<close>: the key of \<^verbatim>\<open>ID\<close> is its
  \<^verbatim>\<open>bson\<close> tag, and a field without one goes under its name in lower case (the
  \<^verbatim>\<open>json\<close> tags name the keys of the JSON form only).
\<close>

definition marshal_todoModel :: "todoModel \<Rightarrow> document" where
  "marshal_todoModel m =
     [(''_id'', BObjectID (todoModel.ID m)),
      (''title'', BString (todoModel.Title m)),
      (''iscompleted'', BBoolean (todoModel.IsCompleted m)),
      (''createdat'', BDateTime (millisecond (todoModel.CreatedAt m))),
      (''updatedat'', BDateTime (millisecond (todoModel.UpdatedAt m)))]"

text \<open>
  \<^verbatim>\<open>validate.Struct\<close> reads the \<^verbatim>\<open>validate\<close> tag of each field: a field tagged
  \<^verbatim>\<open>required\<close> fails when it holds its zero value. A struct is given by its fields in
  order, each with its name, its \<^verbatim>\<open>validate\<close> tag (empty when it has none) and
  whether it holds the zero value. Only \<^verbatim>\<open>todoModel\<close> declares such tags; \<^verbatim>\<open>todo\<close>
  declares none.
\<close>

definition todoModel_fields :: "todoModel \<Rightarrow> (string \<times> string \<times> bool) list" where
  "todoModel_fields m =
     [(''ID'', [], todoModel.ID m = replicate 12 0),
      (''Title'', [], todoModel.Title m = []),
      (''IsCompleted'', ''required'', todoModel.IsCompleted m = False),
      (''CreatedAt'', ''required'', todoModel.CreatedAt m = 0),
      (''UpdatedAt'', [], todoModel.UpdatedAt m = 0)]"

definition todo_fields :: "todo \<Rightarrow> (string \<times> string \<times> bool) list" where
  "todo_fields t =
     [(''ID'', [], todo.ID t = []),
      (''Title'', [], todo.Title t = []),
      (''IsCompleted'', [], todo.IsCompleted t = False),
      (''CreatedAt'', [], todo.CreatedAt t = 0),
      (''UpdatedAt'', [], todo.UpdatedAt t = 0)]"

definition validate_Struct :: "(string \<times> string \<times> bool) list \<Rightarrow> error option" where
  "validate_Struct fs =
     (case filter (\<lambda>(name, tag, is_zero). tag = ''required'' \<and> is_zero) fs of
        [] \<Rightarrow> None
      | (name, tag_zero) # others \<Rightarrow> Some (ValidationError name))"

text \<open>
  What a handler reads of its request: the \<^verbatim>\<open>id\<close> parameter of the route
  (\<^verbatim>\<open>chi.URLParam(r, "id")\<close>), and what \<^verbatim>\<open>json.NewDecoder(r.Body).Decode\<close> makes of
  the body: the error it returns, if any, and the struct after the call (a field the
  body does not give holds its zero value).
\<close>

record request =
  URLParam_id :: string
  Decode_error :: "error option"
  Decode_value :: todo

text \<open>
  What a handler reads of the world beside the collection: \<open>Now n\<close> is the value of
  the \<open>n\<close>-th call of \<^verbatim>\<open>time.Now()\<close> in the request, \<open>NewObjectID\<close> the identifier
  \<^verbatim>\<open>primitive.NewObjectID()\<close> makes, the \<open>_failure\<close> fields the error the storage
  client reports for the call of that name, and \<open>All_result\<close> what
  \<^verbatim>\<open>res.All(ctx, &todos)\<close> makes of the documents of the cursor: the records decoded,
  or its error.
\<close>

record env =
  Now :: "nat \<Rightarrow> time"
  NewObjectID :: ObjectID
  Find_failure :: "error option"
  All_result :: "document list \<Rightarrow> error + todoModel list"
  InsertOne_failure :: "error option"
  UpdateOne_failure :: "error option"
  DeleteOne_failure :: "error option"

text \<open>The values a JSON response holds, and its body: a \<^verbatim>\<open>renderer.M\<close> or a bare error.\<close>

datatype json =
    JString string
  | JError error
  | JInsertOneResult InsertOneResult
  | JUpdateResult UpdateResult
  | JDeleteResult DeleteResult
  | JTodoList "todo list"

datatype body = M "(string \<times> json) list" | ErrorBody error

record response =
  status :: nat
  body :: body

abbreviation JSON :: "nat \<Rightarrow> body \<Rightarrow> response" where
  "JSON s b \<equiv> \<lparr>status = s, body = b\<rparr>"

abbreviation StatusOK :: nat where
  "StatusOK \<equiv> 200"

abbreviation StatusCreated :: nat where
  "StatusCreated \<equiv> 201"

abbreviation StatusBadRequest :: nat where
  "StatusBadRequest \<equiv> 400"

abbreviation StatusInternalServerError :: nat where
  "StatusInternalServerError \<equiv> 500"

definition message :: "response \<Rightarrow> json option" where
  "message r = (case body r of M kvs \<Rightarrow> map_of kvs ''message'' | ErrorBody e \<Rightarrow> None)"

text \<open>The calls a handler issues on the collection and its cursor.\<close>

datatype storage_call =
    CallFind document
  | CallAll
  | CallInsertOne document
  | CallUpdateOne document "(string \<times> document) list" bool
  | CallDeleteOne document

text \<open>
  How a handler ends: it returns; it panics (\<^verbatim>\<open>log.Panic\<close>), which ends the handler
  at once; or it ends the whole process (\<^verbatim>\<open>log.Fatal\<close>).
\<close>

datatype outcome = Returned | Panicked string | Fatal error

record run =
  responses :: "response list"
  calls :: "storage_call list"
  store :: "document list"
  outcome :: outcome

subsection \<open>The handlers\<close>

text \<open>
  \<^verbatim>\<open>fetchTodos\<close>: a failed \<^verbatim>\<open>Find\<close> is answered 500; a failed \<^verbatim>\<open>res.All\<close> is
  \<^verbatim>\<open>log.Fatal\<close>, with nothing written; otherwise each record goes out in its wire form.
\<close>

definition fetchTodos :: "env \<Rightarrow> document list \<Rightarrow> run" where
  "fetchTodos e coll =
     (case Find (Find_failure e) [] coll of
        Inl err \<Rightarrow>
          \<lparr>responses =
             [JSON StatusInternalServerError
                (M [(''message'', JString ''Failed to fetch todo''), (''error'', JError err)])],
           calls = [CallFind []], store = coll, outcome = Returned\<rparr>
      | Inr res \<Rightarrow>
          (case All_result e res of
             Inl err \<Rightarrow>
               \<lparr>responses = [], calls = [CallFind [], CallAll], store = coll,
                outcome = Fatal err\<rparr>
           | Inr todos \<Rightarrow>
               \<lparr>responses =
                  [JSON StatusOK
                     (M [(''data'',
                          JTodoList
                            (map (\<lambda>t. \<lparr>todo.ID = Hex (todoModel.ID t),
                                        todo.Title = todoModel.Title t,
                                        todo.IsCompleted = todoModel.IsCompleted t,
                                        todo.CreatedAt = todoModel.CreatedAt t,
                                        todo.UpdatedAt = todoModel.UpdatedAt t\<rparr>)
                               todos))])],
                calls = [CallFind [], CallAll], store = coll, outcome = Returned\<rparr>))"

text \<open>
  \<^verbatim>\<open>createTodo\<close>: the body is decoded, the struct of type \<^verbatim>\<open>todo\<close> is validated, the
  title is compared with the empty string, and the record is built and inserted. Each
  failed step writes its response and returns.
\<close>

definition createTodo :: "env \<Rightarrow> request \<Rightarrow> document list \<Rightarrow> run" where
  "createTodo e r coll =
     (case Decode_error r of
        Some err \<Rightarrow>
          \<lparr>responses = [JSON StatusBadRequest (ErrorBody err)],
           calls = [], store = coll, outcome = Returned\<rparr>
      | None \<Rightarrow>
          (let t = Decode_value r in
           case validate_Struct (todo_fields t) of
             Some validationErr \<Rightarrow>
               \<lparr>responses =
                  [JSON StatusBadRequest
                     (M [(''message'', JString ''Error parsing your request''),
                         (''error'', JError validationErr)])],
                calls = [], store = coll, outcome = Returned\<rparr>
           | None \<Rightarrow>
               if todo.Title t = []
               then
                 \<lparr>responses =
                    [JSON StatusBadRequest (M [(''message'', JString ''Title is required'')])],
                  calls = [], store = coll, outcome = Returned\<rparr>
               else
                 (let model = \<lparr>todoModel.ID = NewObjectID e,
                               todoModel.Title = todo.Title t,
                               todoModel.IsCompleted = False,
                               todoModel.CreatedAt = Now e 0,
                               todoModel.UpdatedAt = Now e 1\<rparr>;
                      doc = marshal_todoModel model
                  in case InsertOne (InsertOne_failure e) doc coll of
                       (Inl insertErr, coll') \<Rightarrow>
                         \<lparr>responses =
                            [JSON StatusInternalServerError
                               (M [(''message'', JString ''Todo Creation failed''),
                                   (''error'', JError insertErr)])],
                          calls = [CallInsertOne doc], store = coll', outcome = Returned\<rparr>
                     | (Inr result, coll') \<Rightarrow>
                         \<lparr>responses =
                            [JSON StatusCreated
                               (M [(''message'', JString ''Todo creation successful''),
                                   (''result'', JInsertOneResult result),
                                   (''todo_id'', JString (Hex (todoModel.ID model)))])],
                          calls = [CallInsertOne doc], store = coll', outcome = Returned\<rparr>)))"

text \<open>
  \<^verbatim>\<open>deleteTodo\<close>: when the identifier does not parse, the first statement of the branch
  is \<^verbatim>\<open>log.Panic(id)\<close>, so the response the branch goes on to write is never written.
\<close>

definition deleteTodo :: "env \<Rightarrow> request \<Rightarrow> document list \<Rightarrow> run" where
  "deleteTodo e r coll =
     (let id = TrimSpace (URLParam_id r) in
      case ObjectIDFromHex id of
        Inl err \<Rightarrow>
          \<lparr>responses = [], calls = [], store = coll, outcome = Panicked id\<rparr>
      | Inr objectId \<Rightarrow>
          (let flt = [(''_id'', BObjectID objectId)] in
           case DeleteOne (DeleteOne_failure e) flt coll of
             (Inl deleteErr, coll') \<Rightarrow>
               \<lparr>responses =
                  [JSON StatusInternalServerError
                     (M [(''message'', JString ''Error deleting the todo''),
                         (''error'', JError deleteErr)])],
                calls = [CallDeleteOne flt], store = coll', outcome = Returned\<rparr>
           | (Inr res, coll') \<Rightarrow>
               \<lparr>responses =
                  [JSON StatusOK
                     (M [(''message'', JString ''Todo deletion successful''),
                         (''todo_id'', JString id),
                         (''result'', JDeleteResult res)])],
                calls = [CallDeleteOne flt], store = coll', outcome = Returned\<rparr>))"

text \<open>
  \<^verbatim>\<open>time.Parse(time.RFC3339, time.Now().Format(time.RFC3339))\<close>: the layout has no
  fraction of a second, so the time comes back cut to the whole second.
\<close>

definition RFC3339_round_trip :: "time \<Rightarrow> time" where
  "RFC3339_round_trip t = t - t mod 1000000000"

text \<open>
  \<^verbatim>\<open>&(todo.Title)\<close> is the address of a field of a local variable, and no address
  taken with \<^verbatim>\<open>&\<close> is \<^verbatim>\<open>nil\<close>.
\<close>

definition Title_address_is_nil :: bool where
  "Title_address_is_nil = False"

text \<open>
  \<^verbatim>\<open>updateTodo\<close>: an identifier that does not parse is answered 400, and the handler
  returns. A body that does not decode is answered 400 with no \<^verbatim>\<open>return\<close>, so the
  handler goes on with the struct as the decoder left it. The update is guarded by
  \<^verbatim>\<open>todo.Title != "" || &(todo.Title) != nil\<close>.
\<close>

definition updateTodo :: "env \<Rightarrow> request \<Rightarrow> document list \<Rightarrow> run" where
  "updateTodo e r coll =
     (let id = TrimSpace (URLParam_id r) in
      case ObjectIDFromHex id of
        Inl err \<Rightarrow>
          \<lparr>responses =
             [JSON StatusBadRequest
                (M [(''message'', JString ''Error Parsing your request''),
                    (''error'', JError err)])],
           calls = [], store = coll, outcome = Returned\<rparr>
      | Inr objectID \<Rightarrow>
          (let t = Decode_value r;
               written =
                 (case Decode_error r of
                    Some err \<Rightarrow>
                      [JSON StatusBadRequest (M [(''message'', JString ''Bad request'')])]
                  | None \<Rightarrow> [])
           in if todo.Title t \<noteq> [] \<or> \<not> Title_address_is_nil
              then
                (let updateObj =
                       [(''title'', BString (todo.Title t)),
                        (''updated_at'', BDateTime (RFC3339_round_trip (Now e 0)))];
                     flt = [(''_id'', BObjectID objectID)];
                     upsert = True;
                     update = [(''$set'', updateObj)]
                 in case UpdateOne (UpdateOne_failure e) flt update upsert coll of
                      (Inl err, coll') \<Rightarrow>
                        \<lparr>responses =
                           written @
                           [JSON StatusInternalServerError
                              (M [(''message'', JString ''Update Failed''),
                                  (''error'', JError err)])],
                         calls = [CallUpdateOne flt update upsert], store = coll',
                         outcome = Returned\<rparr>
                    | (Inr result, coll') \<Rightarrow>
                        \<lparr>responses =
                           written @
                           [JSON StatusOK
                              (M [(''message'', JString ''Update Successful''),
                                  (''todo_id'', JString id),
                                  (''result'', JUpdateResult result)])],
                         calls = [CallUpdateOne flt update upsert], store = coll',
                         outcome = Returned\<rparr>)
              else
                \<lparr>responses =
                   written @
                   [JSON StatusBadRequest (M [(''message'', JString ''Title is required'')])],
                 calls = [], store = coll, outcome = Returned\<rparr>))"

subsection \<open>The router\<close>

datatype http_method = CONNECT | DELETE | GET | HEAD | OPTIONS | PATCH | POST | PUT | TRACE

datatype handler = HomeHandler | FetchTodos | CreateTodo | UpdateTodo | DeleteTodo

text \<open>
  \<^verbatim>\<open>todoHandlers\<close> as the service registers it (\<^verbatim>\<open>r.Get\<close>, \<^verbatim>\<open>r.Post\<close>, \<^verbatim>\<open>r.Put\<close>,
  \<^verbatim>\<open>r.Delete\<close>), and as the earlier \<^verbatim>\<open>src/main.go\<close> writes it (\<^verbatim>\<open>r.Patch\<close> in the
  place of \<^verbatim>\<open>r.Put\<close>).
\<close>

definition todoHandlers :: "(http_method \<times> string \<times> handler) list" where
  "todoHandlers =
     [(GET, ''/'', FetchTodos),
      (POST, ''/'', CreateTodo),
      (PUT, ''/{id}'', UpdateTodo),
      (DELETE, ''/{id}'', DeleteTodo)]"

definition todoHandlers_main_go :: "(http_method \<times> string \<times> handler) list" where
  "todoHandlers_main_go =
     [(GET, ''/'', FetchTodos),
      (POST, ''/'', CreateTodo),
      (PATCH, ''/{id}'', UpdateTodo),
      (DELETE, ''/{id}'', DeleteTodo)]"

text \<open>
  The two shapes of pattern the routers use: \<^verbatim>\<open>/{id}\<close> matches a slash and one
  segment that is not empty and holds no slash, which it binds to \<^verbatim>\<open>id\<close>; any other
  pattern matches the path equal to it.
\<close>

definition match_pattern :: "string \<Rightarrow> string \<Rightarrow> (string \<times> string) list option" where
  "match_pattern pattern path =
     (if pattern = ''/{id}''
      then
        (if take 1 path = ''/'' \<and> drop 1 path \<noteq> [] \<and> CHR ''/'' \<notin> set (drop 1 path)
         then Some [(''id'', drop 1 path)]
         else None)
      else if pattern = path then Some [] else None)"

datatype dispatch =
    Routed handler "(string \<times> string) list"
  | MethodNotAllowed
  | NotFound

text \<open>
  The first route of the method whose pattern matches the path serves the request; a
  path that only routes of other methods match is answered 405, and a path that no
  route matches 404.
\<close>

fun route :: "(http_method \<times> string \<times> handler) list \<Rightarrow> http_method \<Rightarrow> string \<Rightarrow> dispatch" where
  "route [] m path = NotFound"
| "route ((m', pattern, h) # rs) m path =
     (case match_pattern pattern path of
        None \<Rightarrow> route rs m path
      | Some params \<Rightarrow>
          if m' = m then Routed h params
          else (case route rs m path of NotFound \<Rightarrow> MethodNotAllowed | d \<Rightarrow> d))"

text \<open>
  \<^verbatim>\<open>r.Mount(prefix, sub)\<close> hands the sub-router the prefix itself and the prefix with
  a slash as the path \<^verbatim>\<open>/\<close>, and a path below the prefix as the rest of it.
\<close>

definition Mount :: "string \<Rightarrow> string \<Rightarrow> string option" where
  "Mount prefix path =
     (if path = prefix \<or> path = prefix @ ''/'' then Some ''/''
      else if take (length prefix + 1) path = prefix @ ''/''
      then Some (''/'' @ drop (length prefix + 1) path)
      else None)"

text \<open>
  The router of \<^verbatim>\<open>main\<close>: \<^verbatim>\<open>r.Get("/", homeHandler)\<close> and
  \<^verbatim>\<open>r.Mount("/todo", todoHandlers())\<close>, over a table of the routes of the group.
\<close>

definition ServeHTTP ::
  "(http_method \<times> string \<times> handler) list \<Rightarrow> http_method \<Rightarrow> string \<Rightarrow> dispatch" where
  "ServeHTTP routes m path =
     (case Mount ''/todo'' path of
        Some sub \<Rightarrow> route routes m sub
      | None \<Rightarrow> route [(GET, ''/'', HomeHandler)] m path)"

subsection \<open>Example inputs\<close>

text \<open>
  A clock, a fresh identifier and a storage client that reports no failure; the struct
  the decoder makes of a body that gives a title and nothing else; the identifier of a
  record in the form a path carries it, and the document \<^verbatim>\<open>createTodo\<close> stores for
  the title \<^verbatim>\<open>buy milk\<close> under that identifier.
\<close>

definition example_env :: env where
  "example_env =
     \<lparr>Now = (\<lambda>n. 1700000000123456789 + int n),
      NewObjectID = [101, 66, 240, 0, 1, 2, 3, 4, 5, 6, 7, 8],
      Find_failure = None,
      All_result = (\<lambda>docs. Inr []),
      InsertOne_failure = None,
      UpdateOne_failure = None,
      DeleteOne_failure = None\<rparr>"

definition title_only :: "string \<Rightarrow> todo" where
  "title_only s =
     \<lparr>todo.ID = [], todo.Title = s, todo.IsCompleted = False, todo.CreatedAt = 0,
      todo.UpdatedAt = 0\<rparr>"

definition milk_id :: string where
  "milk_id = ''6542f0000102030405060708''"

definition milk :: document where
  "milk =
     [(''_id'', BObjectID [101, 66, 240, 0, 1, 2, 3, 4, 5, 6, 7, 8]),
      (''title'', BString ''buy milk''),
      (''iscompleted'', BBoolean False),
      (''createdat'', BDateTime 1700000000123000000),
      (''updatedat'', BDateTime 1700000000123000000)]"

section \<open>Properties of the storage model\<close>

lemma matches_id [simp]: "matches [(''_id'', v)] doc = (map_of doc ''_id'' = Some v)"
  by (simp add: matches_def)

lemma matches_empty [simp]: "matches [] doc"
  by (simp add: matches_def)

lemma map_of_set_field:
  "map_of (set_field k v doc) k' = (if k' = k then Some v else map_of doc k')"
  by (induction doc) auto

lemma find_first_match:
  "\<forall>x \<in> set pre. \<not> P x \<Longrightarrow> P x \<Longrightarrow> find P (pre @ x # post) = Some x"
  by (induction pre) auto

lemma update_first_match:
  "\<forall>x \<in> set pre. \<not> P x \<Longrightarrow> P x \<Longrightarrow> update_first P f (pre @ x # post) = pre @ f x # post"
  by (induction pre) auto

lemma find_no_match: "\<forall>x \<in> set xs. \<not> P x \<Longrightarrow> find P xs = None"
  by (induction xs) auto

lemma delete_first_no_match: "\<forall>x \<in> set xs. \<not> P x \<Longrightarrow> delete_first P xs = xs"
  by (induction xs) auto

lemma delete_first_distinct:
  "distinct (map f xs) \<Longrightarrow> \<forall>x \<in> set (delete_first (\<lambda>x. f x = v) xs). f x \<noteq> v"
  by (induction xs) (auto simp: image_iff)

section \<open>Properties of the handlers' steps\<close>

lemma validate_Struct_todo: "validate_Struct (todo_fields t) = None"
  by (simp add: validate_Struct_def todo_fields_def)

lemma validate_Struct_todoModel:
  "validate_Struct (todoModel_fields m) = None \<longleftrightarrow>
     todoModel.IsCompleted m \<and> todoModel.CreatedAt m \<noteq> 0"
  by (simp add: validate_Struct_def todoModel_fields_def)

lemma map_of_apply_set_title:
  "map_of (apply_set [(''title'', t), (''updated_at'', u)] doc) k =
     (if k = ''title'' then Some t else if k = ''updated_at'' then Some u else map_of doc k)"
  by (simp add: apply_set_def map_of_set_field)

lemma deleteTodo_succeeds:
  assumes "ObjectIDFromHex (TrimSpace (URLParam_id r)) = Inr oid"
    and "DeleteOne_failure e = None"
  shows
    "deleteTodo e r coll =
       \<lparr>responses =
          [JSON StatusOK
             (M [(''message'', JString ''Todo deletion successful''),
                 (''todo_id'', JString (TrimSpace (URLParam_id r))),
                 (''result'',
                  JDeleteResult
                    \<lparr>DeletedCount =
                       (if list_ex (matches [(''_id'', BObjectID oid)]) coll then 1 else 0)\<rparr>)])],
        calls = [CallDeleteOne [(''_id'', BObjectID oid)]],
        store = delete_first (matches [(''_id'', BObjectID oid)]) coll,
        outcome = Returned\<rparr>"
  using assms by (simp add: deleteTodo_def Let_def DeleteOne_def)

lemma delete_first_twice:
  assumes "unique_ids coll"
  shows "delete_first (matches [(''_id'', v)]) (delete_first (matches [(''_id'', v)]) coll) =
         delete_first (matches [(''_id'', v)]) coll"
proof -
  have eq: "matches [(''_id'', v)] = (\<lambda>d. map_of d ''_id'' = Some v)"
    by (rule ext) simp
  from assms have "distinct (map (\<lambda>d. map_of d ''_id'') coll)"
    by (simp add: unique_ids_def)
  then have "\<forall>d \<in> set (delete_first (\<lambda>d. map_of d ''_id'' = Some v) coll).
               map_of d ''_id'' \<noteq> Some v"
    by (rule delete_first_distinct)
  then have "delete_first (\<lambda>d. map_of d ''_id'' = Some v)
               (delete_first (\<lambda>d. map_of d ''_id'' = Some v) coll) =
             delete_first (\<lambda>d. map_of d ''_id'' = Some v) coll"
    by (rule delete_first_no_match)
  then show ?thesis
    by (simp only: eq)
qed

lemma ServeHTTP_below_todo:
  "ServeHTTP routes m (''/todo/'' @ seg) = route routes m (CHR ''/'' # seg)"
  by (simp add: ServeHTTP_def Mount_def)

lemma match_pattern_id:
  "seg \<noteq> [] \<Longrightarrow> CHR ''/'' \<notin> set seg \<Longrightarrow>
   match_pattern ''/{id}'' (CHR ''/'' # seg) = Some [(''id'', seg)]"
  by (simp add: match_pattern_def)

lemma match_pattern_root:
  "seg \<noteq> [] \<Longrightarrow> match_pattern ''/'' (CHR ''/'' # seg) = None"
  by (simp add: match_pattern_def)

section \<open>The claims\<close>

text \<open>
  C1. An update request whose identifier parses and whose body has an empty title
  should be answered 400 with the message \<^verbatim>\<open>Title is required\<close> and issue no update.
  What \<^verbatim>\<open>updateTodo\<close> does, for every such request: the second disjunct of its guard
  holds whatever the title is, so it issues one \<^verbatim>\<open>UpdateOne\<close> that sets the title to
  the empty string, and none of its responses carries the message
  \<^verbatim>\<open>Title is required\<close>.
\<close>

theorem updateTodo_empty_title:
  assumes "ObjectIDFromHex (TrimSpace (URLParam_id r)) = Inr oid"
    and "todo.Title (Decode_value r) = []"
  shows
    "calls (updateTodo e r coll) =
       [CallUpdateOne [(''_id'', BObjectID oid)]
          [(''$set'',
            [(''title'', BString []),
             (''updated_at'', BDateTime (RFC3339_round_trip (Now e 0)))])]
          True] \<and>
     (\<forall>resp \<in> set (responses (updateTodo e r coll)).
        message resp \<noteq> Some (JString ''Title is required''))"
  using assms
  by (auto simp: updateTodo_def Let_def Title_address_is_nil_def message_def
      split: prod.splits sum.splits option.splits)

theorem updateTodo_empty_title_witness:
  "updateTodo example_env
     \<lparr>URLParam_id = milk_id, Decode_error = None, Decode_value = title_only []\<rparr> [milk] =
     \<lparr>responses =
        [JSON StatusOK
           (M [(''message'', JString ''Update Successful''),
               (''todo_id'', JString milk_id),
               (''result'',
                JUpdateResult
                  \<lparr>MatchedCount = 1, ModifiedCount = 1, UpsertedCount = 0,
                   UpsertedID = None\<rparr>)])],
      calls =
        [CallUpdateOne [(''_id'', BObjectID [101, 66, 240, 0, 1, 2, 3, 4, 5, 6, 7, 8])]
           [(''$set'',
             [(''title'', BString []), (''updated_at'', BDateTime 1700000000000000000)])]
           True],
      store =
        [[(''_id'', BObjectID [101, 66, 240, 0, 1, 2, 3, 4, 5, 6, 7, 8]),
          (''title'', BString []),
          (''iscompleted'', BBoolean False),
          (''createdat'', BDateTime 1700000000123000000),
          (''updatedat'', BDateTime 1700000000123000000),
          (''updated_at'', BDateTime 1700000000000000000)]],
      outcome = Returned\<rparr>"
proof -
  let ?r = "\<lparr>URLParam_id = milk_id, Decode_error = None, Decode_value = title_only []\<rparr>"
  have parse:
    "ObjectIDFromHex (TrimSpace (URLParam_id ?r)) = Inr [101, 66, 240, 0, 1, 2, 3, 4, 5, 6, 7, 8]"
    by code_simp
  have title: "todo.Title (Decode_value ?r) = []"
    by (simp add: title_only_def)
  have now: "RFC3339_round_trip (Now example_env 0) = 1700000000000000000"
    by code_simp
  have run:
    "updateTodo example_env ?r [milk] =
       \<lparr>responses =
          [JSON StatusOK
             (M [(''message'', JString ''Update Successful''),
                 (''todo_id'', JString milk_id),
                 (''result'',
                  JUpdateResult
                    \<lparr>MatchedCount = 1, ModifiedCount = 1, UpsertedCount = 0,
                     UpsertedID = None\<rparr>)])],
        calls = calls (updateTodo example_env ?r [milk]),
        store =
          [[(''_id'', BObjectID [101, 66, 240, 0, 1, 2, 3, 4, 5, 6, 7, 8]),
            (''title'', BString []),
            (''iscompleted'', BBoolean False),
            (''createdat'', BDateTime 1700000000123000000),
            (''updatedat'', BDateTime 1700000000123000000),
            (''updated_at'', BDateTime 1700000000000000000)]],
        outcome = Returned\<rparr>"
    by code_simp
  from updateTodo_empty_title [OF parse title, of example_env "[milk]"] now run
  show ?thesis
    by simp
qed

text \<open>
  C2. An update or delete request whose identifier does not parse should be answered
  400 with the message \<^verbatim>\<open>Error Parsing your request\<close>, with no storage call. What the
  handlers do, for every such request: \<^verbatim>\<open>updateTodo\<close> writes exactly that response,
  issues no call and returns; \<^verbatim>\<open>deleteTodo\<close> issues no call either, but panics with
  the identifier before it has written anything.
\<close>

theorem malformed_identifier:
  assumes "ObjectIDFromHex (TrimSpace (URLParam_id r)) = Inl err"
  shows
    "updateTodo e r coll =
       \<lparr>responses =
          [JSON StatusBadRequest
             (M [(''message'', JString ''Error Parsing your request''), (''error'', JError err)])],
        calls = [], store = coll, outcome = Returned\<rparr> \<and>
     deleteTodo e r coll =
       \<lparr>responses = [], calls = [], store = coll,
        outcome = Panicked (TrimSpace (URLParam_id r))\<rparr>"
  using assms by (simp add: updateTodo_def deleteTodo_def)

theorem malformed_identifier_witness:
  "updateTodo example_env
     \<lparr>URLParam_id = ''xyz'', Decode_error = None, Decode_value = title_only ''buy bread''\<rparr>
     [milk] =
     \<lparr>responses =
        [JSON StatusBadRequest
           (M [(''message'', JString ''Error Parsing your request''),
               (''error'', JError ErrInvalidHex)])],
      calls = [], store = [milk], outcome = Returned\<rparr> \<and>
   deleteTodo example_env
     \<lparr>URLParam_id = ''xyz'', Decode_error = None, Decode_value = title_only []\<rparr> [milk] =
     \<lparr>responses = [], calls = [], store = [milk], outcome = Panicked ''xyz''\<rparr>"
proof -
  have trim: "TrimSpace ''xyz'' = ''xyz''"
    by code_simp
  have parse: "ObjectIDFromHex ''xyz'' = Inl ErrInvalidHex"
    by code_simp
  show ?thesis
    using
      malformed_identifier
        [of "\<lparr>URLParam_id = ''xyz'', Decode_error = None,
              Decode_value = title_only ''buy bread''\<rparr>"
            ErrInvalidHex example_env "[milk]"]
      malformed_identifier
        [of "\<lparr>URLParam_id = ''xyz'', Decode_error = None, Decode_value = title_only []\<rparr>"
            ErrInvalidHex example_env "[milk]"]
    by (simp add: trim parse)
qed

text \<open>
  C3, as amended. For every create request whose body decodes and passes the struct
  validation: when the title is the empty string, the handler answers 400 with the
  message \<^verbatim>\<open>Title is required\<close>, issues no call and leaves the collection as it is;
  when the title is anything else, white space included, the handler issues
  \<^verbatim>\<open>InsertOne\<close> with the record of that title.
\<close>

theorem createTodo_empty_title:
  assumes "Decode_error r = None"
    and "validate_Struct (todo_fields (Decode_value r)) = None"
  shows
    "(todo.Title (Decode_value r) = [] \<longrightarrow>
        createTodo e r coll =
          \<lparr>responses =
             [JSON StatusBadRequest (M [(''message'', JString ''Title is required'')])],
           calls = [], store = coll, outcome = Returned\<rparr>) \<and>
     (todo.Title (Decode_value r) \<noteq> [] \<longrightarrow>
        calls (createTodo e r coll) =
          [CallInsertOne
             (marshal_todoModel
                \<lparr>todoModel.ID = NewObjectID e,
                 todoModel.Title = todo.Title (Decode_value r),
                 todoModel.IsCompleted = False,
                 todoModel.CreatedAt = Now e 0,
                 todoModel.UpdatedAt = Now e 1\<rparr>)])"
  using assms
  by (auto simp: createTodo_def Let_def split: prod.splits sum.splits)

text \<open>
  The claim as it was stated fails for a title of white space only: a body that gives
  one space as its title decodes, passes the validation, is all white space, and is
  inserted and answered 201.
\<close>

theorem createTodo_blank_title_counterexample:
  "validate_Struct (todo_fields (title_only '' '')) = None \<and>
   TrimSpace '' '' = [] \<and>
   createTodo example_env
     \<lparr>URLParam_id = [], Decode_error = None, Decode_value = title_only '' ''\<rparr> [] =
     \<lparr>responses =
        [JSON StatusCreated
           (M [(''message'', JString ''Todo creation successful''),
               (''result'',
                JInsertOneResult
                  \<lparr>InsertedID = Some (BObjectID [101, 66, 240, 0, 1, 2, 3, 4, 5, 6, 7, 8])\<rparr>),
               (''todo_id'', JString ''6542f0000102030405060708'')])],
      calls =
        [CallInsertOne
           [(''_id'', BObjectID [101, 66, 240, 0, 1, 2, 3, 4, 5, 6, 7, 8]),
            (''title'', BString '' ''),
            (''iscompleted'', BBoolean False),
            (''createdat'', BDateTime 1700000000123000000),
            (''updatedat'', BDateTime 1700000000123000000)]],
      store =
        [[(''_id'', BObjectID [101, 66, 240, 0, 1, 2, 3, 4, 5, 6, 7, 8]),
          (''title'', BString '' ''),
          (''iscompleted'', BBoolean False),
          (''createdat'', BDateTime 1700000000123000000),
          (''updatedat'', BDateTime 1700000000123000000)]],
      outcome = Returned\<rparr>"
  by code_simp

theorem createTodo_empty_title_witness:
  "createTodo example_env
     \<lparr>URLParam_id = [], Decode_error = None, Decode_value = title_only []\<rparr> [milk] =
     \<lparr>responses = [JSON StatusBadRequest (M [(''message'', JString ''Title is required'')])],
      calls = [], store = [milk], outcome = Returned\<rparr> \<and>
   calls
     (createTodo example_env
        \<lparr>URLParam_id = [], Decode_error = None, Decode_value = title_only ''buy milk''\<rparr> []) =
     [CallInsertOne milk]"
proof -
  let ?empty = "\<lparr>URLParam_id = [], Decode_error = None, Decode_value = title_only []\<rparr>"
  let ?milk = "\<lparr>URLParam_id = [], Decode_error = None, Decode_value = title_only ''buy milk''\<rparr>"
  have decodes: "Decode_error ?empty = None" "Decode_error ?milk = None"
    by simp_all
  have valid:
    "validate_Struct (todo_fields (Decode_value ?empty)) = None"
    "validate_Struct (todo_fields (Decode_value ?milk)) = None"
    by code_simp+
  have doc:
    "marshal_todoModel
       \<lparr>todoModel.ID = NewObjectID example_env,
        todoModel.Title = todo.Title (Decode_value ?milk),
        todoModel.IsCompleted = False,
        todoModel.CreatedAt = Now example_env 0,
        todoModel.UpdatedAt = Now example_env 1\<rparr> = milk"
    by code_simp
  from createTodo_empty_title [OF decodes(1) valid(1), of example_env "[milk]"]
    createTodo_empty_title [OF decodes(2) valid(2), of example_env "[]"] doc
  show ?thesis
    by (simp add: title_only_def)
qed

text \<open>
  C4, as amended. Create validates the decoded wire payload, a struct of type
  \<^verbatim>\<open>todo\<close>, and that struct declares no required field: the \<^verbatim>\<open>required\<close> tags of
  \<^verbatim>\<open>IsCompleted\<close> and \<^verbatim>\<open>CreatedAt\<close> are on \<^verbatim>\<open>todoModel\<close>, which create never
  validates. So the validation step fails for no payload, no response of create carries
  the message \<^verbatim>\<open>Error parsing your request\<close>, and a payload that decodes with a title
  that is not empty is inserted, whatever it gives for the other fields.
\<close>

theorem createTodo_validation:
  "validate_Struct (todo_fields t) = None \<and>
   (validate_Struct (todoModel_fields m) = None \<longleftrightarrow>
      todoModel.IsCompleted m \<and> todoModel.CreatedAt m \<noteq> 0) \<and>
   (\<forall>resp \<in> set (responses (createTodo e r coll)).
      message resp \<noteq> Some (JString ''Error parsing your request'')) \<and>
   (Decode_error r = None \<and> todo.Title (Decode_value r) \<noteq> [] \<longrightarrow>
      calls (createTodo e r coll) =
        [CallInsertOne
           (marshal_todoModel
              \<lparr>todoModel.ID = NewObjectID e,
               todoModel.Title = todo.Title (Decode_value r),
               todoModel.IsCompleted = False,
               todoModel.CreatedAt = Now e 0,
               todoModel.UpdatedAt = Now e 1\<rparr>)])"
proof -
  have never:
    "\<forall>resp \<in> set (responses (createTodo e r coll)).
       message resp \<noteq> Some (JString ''Error parsing your request'')"
    by (auto simp: createTodo_def Let_def validate_Struct_todo message_def
        split: option.splits prod.splits sum.splits)
  have inserts:
    "Decode_error r = None \<and> todo.Title (Decode_value r) \<noteq> [] \<longrightarrow>
      calls (createTodo e r coll) =
        [CallInsertOne
           (marshal_todoModel
              \<lparr>todoModel.ID = NewObjectID e,
               todoModel.Title = todo.Title (Decode_value r),
               todoModel.IsCompleted = False,
               todoModel.CreatedAt = Now e 0,
               todoModel.UpdatedAt = Now e 1\<rparr>)]"
    by (auto simp: createTodo_def Let_def validate_Struct_todo split: prod.splits sum.splits)
  from validate_Struct_todo [of t] validate_Struct_todoModel [of m] never inserts
  show ?thesis
    by blast
qed

text \<open>
  The claim as it was stated fails: the payload that gives the title \<^verbatim>\<open>buy milk\<close> and
  omits \<^verbatim>\<open>is_completed\<close> and \<^verbatim>\<open>created_at\<close> is inserted and answered 201, and there
  is no payload at all for which the validation step fails.
\<close>

theorem createTodo_validation_counterexample:
  "createTodo example_env
     \<lparr>URLParam_id = [], Decode_error = None, Decode_value = title_only ''buy milk''\<rparr> [] =
     \<lparr>responses =
        [JSON StatusCreated
           (M [(''message'', JString ''Todo creation successful''),
               (''result'',
                JInsertOneResult
                  \<lparr>InsertedID = Some (BObjectID [101, 66, 240, 0, 1, 2, 3, 4, 5, 6, 7, 8])\<rparr>),
               (''todo_id'', JString milk_id)])],
      calls = [CallInsertOne milk], store = [milk], outcome = Returned\<rparr> \<and>
   \<not> (\<exists>t. validate_Struct (todo_fields t) \<noteq> None)"
proof -
  have "createTodo example_env
     \<lparr>URLParam_id = [], Decode_error = None, Decode_value = title_only ''buy milk''\<rparr> [] =
     \<lparr>responses =
        [JSON StatusCreated
           (M [(''message'', JString ''Todo creation successful''),
               (''result'',
                JInsertOneResult
                  \<lparr>InsertedID = Some (BObjectID [101, 66, 240, 0, 1, 2, 3, 4, 5, 6, 7, 8])\<rparr>),
               (''todo_id'', JString milk_id)])],
      calls = [CallInsertOne milk], store = [milk], outcome = Returned\<rparr>"
    by code_simp
  then show ?thesis
    by (simp add: validate_Struct_todo)
qed

theorem createTodo_validation_witness:
  "validate_Struct (todo_fields (title_only ''buy bread'')) = None \<and>
   validate_Struct
     (todoModel_fields
        \<lparr>todoModel.ID = NewObjectID example_env, todoModel.Title = ''buy bread'',
         todoModel.IsCompleted = False, todoModel.CreatedAt = Now example_env 0,
         todoModel.UpdatedAt = Now example_env 1\<rparr>) \<noteq> None \<and>
   calls
     (createTodo example_env
        \<lparr>URLParam_id = [], Decode_error = None, Decode_value = title_only ''buy bread''\<rparr>
        [milk]) =
     [CallInsertOne
        [(''_id'', BObjectID [101, 66, 240, 0, 1, 2, 3, 4, 5, 6, 7, 8]),
         (''title'', BString ''buy bread''),
         (''iscompleted'', BBoolean False),
         (''createdat'', BDateTime 1700000000123000000),
         (''updatedat'', BDateTime 1700000000123000000)]]"
proof -
  let ?r = "\<lparr>URLParam_id = [], Decode_error = None, Decode_value = title_only ''buy bread''\<rparr>"
  let ?m = "\<lparr>todoModel.ID = NewObjectID example_env, todoModel.Title = ''buy bread'',
             todoModel.IsCompleted = False, todoModel.CreatedAt = Now example_env 0,
             todoModel.UpdatedAt = Now example_env 1\<rparr>"
  have doc:
    "marshal_todoModel ?m =
       [(''_id'', BObjectID [101, 66, 240, 0, 1, 2, 3, 4, 5, 6, 7, 8]),
        (''title'', BString ''buy bread''),
        (''iscompleted'', BBoolean False),
        (''createdat'', BDateTime 1700000000123000000),
        (''updatedat'', BDateTime 1700000000123000000)]"
    by code_simp
  from createTodo_validation [of "title_only ''buy bread''" ?m example_env ?r "[milk]"] doc
  show ?thesis
    by (simp add: title_only_def)
qed

text \<open>
  C5. A failed step should end the request with one error response: no storage call and
  no second response after it. What \<^verbatim>\<open>updateTodo\<close> does, for every request whose
  identifier parses and whose body does not decode: it writes 400 \<^verbatim>\<open>Bad request\<close>
  and goes on, issues \<^verbatim>\<open>UpdateOne\<close> with the title the decoder left in the struct,
  and writes a second response, 200 or 500 by the result of the update.
\<close>

theorem updateTodo_undecodable_body:
  assumes "ObjectIDFromHex (TrimSpace (URLParam_id r)) = Inr oid"
    and "Decode_error r = Some err"
  shows
    "(\<exists>second.
        responses (updateTodo e r coll) =
          [JSON StatusBadRequest (M [(''message'', JString ''Bad request'')]), second] \<and>
        (status second = StatusOK \<or> status second = StatusInternalServerError)) \<and>
     calls (updateTodo e r coll) =
       [CallUpdateOne [(''_id'', BObjectID oid)]
          [(''$set'',
            [(''title'', BString (todo.Title (Decode_value r))),
             (''updated_at'', BDateTime (RFC3339_round_trip (Now e 0)))])]
          True]"
  using assms
  by (auto simp: updateTodo_def Let_def Title_address_is_nil_def
      split: prod.splits sum.splits)

theorem updateTodo_undecodable_body_witness:
  "updateTodo example_env
     \<lparr>URLParam_id = ''6542f0000102030405060709'',
      Decode_error = Some (SyntaxError ''invalid character''),
      Decode_value = title_only []\<rparr> [milk] =
     \<lparr>responses =
        [JSON StatusBadRequest (M [(''message'', JString ''Bad request'')]),
         JSON StatusOK
           (M [(''message'', JString ''Update Successful''),
               (''todo_id'', JString ''6542f0000102030405060709''),
               (''result'',
                JUpdateResult
                  \<lparr>MatchedCount = 0, ModifiedCount = 0, UpsertedCount = 1,
                   UpsertedID = Some (BObjectID [101, 66, 240, 0, 1, 2, 3, 4, 5, 6, 7, 9])\<rparr>)])],
      calls =
        [CallUpdateOne [(''_id'', BObjectID [101, 66, 240, 0, 1, 2, 3, 4, 5, 6, 7, 9])]
           [(''$set'',
             [(''title'', BString []), (''updated_at'', BDateTime 1700000000000000000)])]
           True],
      store =
        [milk,
         [(''_id'', BObjectID [101, 66, 240, 0, 1, 2, 3, 4, 5, 6, 7, 9]),
          (''title'', BString []),
          (''updated_at'', BDateTime 1700000000000000000)]],
      outcome = Returned\<rparr>"
proof -
  let ?r = "\<lparr>URLParam_id = ''6542f0000102030405060709'',
             Decode_error = Some (SyntaxError ''invalid character''),
             Decode_value = title_only []\<rparr>"
  have parse:
    "ObjectIDFromHex (TrimSpace (URLParam_id ?r)) = Inr [101, 66, 240, 0, 1, 2, 3, 4, 5, 6, 7, 9]"
    by code_simp
  have undecodable: "Decode_error ?r = Some (SyntaxError ''invalid character'')"
    by simp
  have now: "RFC3339_round_trip (Now example_env 0) = 1700000000000000000"
    by code_simp
  have title: "todo.Title (Decode_value ?r) = []"
    by (simp add: title_only_def)
  have run:
    "updateTodo example_env ?r [milk] =
       \<lparr>responses =
          [JSON StatusBadRequest (M [(''message'', JString ''Bad request'')]),
           JSON StatusOK
             (M [(''message'', JString ''Update Successful''),
                 (''todo_id'', JString ''6542f0000102030405060709''),
                 (''result'',
                  JUpdateResult
                    \<lparr>MatchedCount = 0, ModifiedCount = 0, UpsertedCount = 1,
                     UpsertedID =
                       Some (BObjectID [101, 66, 240, 0, 1, 2, 3, 4, 5, 6, 7, 9])\<rparr>)])],
        calls = calls (updateTodo example_env ?r [milk]),
        store =
          [milk,
           [(''_id'', BObjectID [101, 66, 240, 0, 1, 2, 3, 4, 5, 6, 7, 9]),
            (''title'', BString []),
            (''updated_at'', BDateTime 1700000000000000000)]],
        outcome = Returned\<rparr>"
    by code_simp
  from updateTodo_undecodable_body [OF parse undecodable, of example_env "[milk]"] now title run
  show ?thesis
    by simp
qed

text \<open>
  C6, as amended. The router of the service dispatches \<^verbatim>\<open>GET /todo\<close> to List,
  \<^verbatim>\<open>POST /todo\<close> to Create, and for every identifier of one segment
  \<^verbatim>\<open>PUT /todo/{id}\<close> to Update and \<^verbatim>\<open>DELETE /todo/{id}\<close> to Delete; it registers no
  route for \<^verbatim>\<open>PATCH\<close>, so \<^verbatim>\<open>PATCH /todo/{id}\<close> is answered 405. The earlier
  \<^verbatim>\<open>src/main.go\<close> registers Update under \<^verbatim>\<open>PATCH\<close> and not under \<^verbatim>\<open>PUT\<close>. Neither
  router dispatches both methods to Update.
\<close>

theorem routes_of_todoHandlers:
  "ServeHTTP todoHandlers GET ''/todo'' = Routed FetchTodos [] \<and>
   ServeHTTP todoHandlers POST ''/todo'' = Routed CreateTodo [] \<and>
   (seg \<noteq> [] \<and> CHR ''/'' \<notin> set seg \<longrightarrow>
      ServeHTTP todoHandlers PUT (''/todo/'' @ seg) = Routed UpdateTodo [(''id'', seg)] \<and>
      ServeHTTP todoHandlers DELETE (''/todo/'' @ seg) = Routed DeleteTodo [(''id'', seg)] \<and>
      ServeHTTP todoHandlers PATCH (''/todo/'' @ seg) = MethodNotAllowed \<and>
      ServeHTTP todoHandlers_main_go PATCH (''/todo/'' @ seg) = Routed UpdateTodo [(''id'', seg)] \<and>
      ServeHTTP todoHandlers_main_go PUT (''/todo/'' @ seg) = MethodNotAllowed)"
proof -
  have list: "ServeHTTP todoHandlers GET ''/todo'' = Routed FetchTodos []"
    by code_simp
  have create: "ServeHTTP todoHandlers POST ''/todo'' = Routed CreateTodo []"
    by code_simp
  have by_id:
    "ServeHTTP todoHandlers PUT (''/todo/'' @ seg) = Routed UpdateTodo [(''id'', seg)] \<and>
     ServeHTTP todoHandlers DELETE (''/todo/'' @ seg) = Routed DeleteTodo [(''id'', seg)] \<and>
     ServeHTTP todoHandlers PATCH (''/todo/'' @ seg) = MethodNotAllowed \<and>
     ServeHTTP todoHandlers_main_go PATCH (''/todo/'' @ seg) = Routed UpdateTodo [(''id'', seg)] \<and>
     ServeHTTP todoHandlers_main_go PUT (''/todo/'' @ seg) = MethodNotAllowed"
    if "seg \<noteq> []" and "CHR ''/'' \<notin> set seg"
    using that
    by (simp add: ServeHTTP_below_todo todoHandlers_def todoHandlers_main_go_def
        match_pattern_id match_pattern_root del: append.simps)
  from list create by_id show ?thesis
    by blast
qed

text \<open>
  The claim as it was stated fails for \<^verbatim>\<open>PATCH\<close>: the router of the service answers
  \<^verbatim>\<open>PATCH /todo/6542f0000102030405060708\<close> with 405 and does not reach Update.
\<close>

theorem routes_of_todoHandlers_counterexample:
  "ServeHTTP todoHandlers PATCH ''/todo/6542f0000102030405060708'' = MethodNotAllowed"
  by code_simp

theorem routes_of_todoHandlers_witness:
  "ServeHTTP todoHandlers PUT ''/todo/6542f0000102030405060708'' =
     Routed UpdateTodo [(''id'', ''6542f0000102030405060708'')] \<and>
   ServeHTTP todoHandlers DELETE ''/todo/6542f0000102030405060708'' =
     Routed DeleteTodo [(''id'', ''6542f0000102030405060708'')] \<and>
   ServeHTTP todoHandlers_main_go PATCH ''/todo/6542f0000102030405060708'' =
     Routed UpdateTodo [(''id'', ''6542f0000102030405060708'')] \<and>
   ServeHTTP todoHandlers_main_go PUT ''/todo/6542f0000102030405060708'' = MethodNotAllowed"
  using routes_of_todoHandlers [of "''6542f0000102030405060708''"]
  by simp

text \<open>
  C7. An update request whose identifier parses and matches a record, with a title that
  is not empty, should modify exactly the title and the updatedAt of that record. What
  \<^verbatim>\<open>updateTodo\<close> does, for every such request (and a storage client that reports no
  failure): its one storage call is \<^verbatim>\<open>UpdateOne\<close> on that identifier with \<^verbatim>\<open>$set\<close>
  of \<^verbatim>\<open>title\<close> and \<^verbatim>\<open>updated_at\<close>; afterwards the record holds the new title and,
  under the key \<^verbatim>\<open>updated_at\<close>, the time of the update, and every other field of it
  and every other record is as it was. Among the fields left as they were is
  \<^verbatim>\<open>updatedat\<close>, the key under which \<^verbatim>\<open>createTodo\<close> stores the updatedAt of a record:
  the identifier, the completion flag and the creation time are unchanged, as they
  should be, but so is the updatedAt of the record, and the time of the update goes
  into a field of its own.
\<close>

theorem updateTodo_frame:
  assumes "ObjectIDFromHex (TrimSpace (URLParam_id r)) = Inr oid"
    and "todo.Title (Decode_value r) \<noteq> []"
    and "UpdateOne_failure e = None"
    and "coll = before @ doc # after"
    and "map_of doc ''_id'' = Some (BObjectID oid)"
    and "\<forall>d \<in> set before. map_of d ''_id'' \<noteq> Some (BObjectID oid)"
  shows
    "calls (updateTodo e r coll) =
       [CallUpdateOne [(''_id'', BObjectID oid)]
          [(''$set'',
            [(''title'', BString (todo.Title (Decode_value r))),
             (''updated_at'', BDateTime (RFC3339_round_trip (Now e 0)))])]
          True] \<and>
     (\<exists>doc'.
        store (updateTodo e r coll) = before @ doc' # after \<and>
        map_of doc' ''title'' = Some (BString (todo.Title (Decode_value r))) \<and>
        map_of doc' ''updated_at'' = Some (BDateTime (RFC3339_round_trip (Now e 0))) \<and>
        map_of doc' ''_id'' = Some (BObjectID oid) \<and>
        map_of doc' ''iscompleted'' = map_of doc ''iscompleted'' \<and>
        map_of doc' ''createdat'' = map_of doc ''createdat'' \<and>
        map_of doc' ''updatedat'' = map_of doc ''updatedat'' \<and>
        (\<forall>k. k \<noteq> ''title'' \<and> k \<noteq> ''updated_at'' \<longrightarrow> map_of doc' k = map_of doc k))"
proof -
  let ?flt = "[(''_id'', BObjectID oid)]"
  let ?obj = "[(''title'', BString (todo.Title (Decode_value r))),
               (''updated_at'', BDateTime (RFC3339_round_trip (Now e 0)))]"
  have found: "find (matches ?flt) coll = Some doc"
    using assms(4-6) by (simp add: find_first_match)
  have updated:
    "update_first (matches ?flt) (apply_set ?obj) coll = before @ apply_set ?obj doc # after"
    using assms(4-6) by (simp add: update_first_match)
  have run:
    "calls (updateTodo e r coll) = [CallUpdateOne ?flt [(''$set'', ?obj)] True] \<and>
     store (updateTodo e r coll) = before @ apply_set ?obj doc # after"
    using assms(1-3) found updated
    by (simp add: updateTodo_def Let_def UpdateOne_def)
  have frame:
    "\<forall>k. k \<noteq> ''title'' \<and> k \<noteq> ''updated_at'' \<longrightarrow> map_of (apply_set ?obj doc) k = map_of doc k"
    by (simp add: map_of_apply_set_title)
  have set_fields:
    "map_of (apply_set ?obj doc) ''title'' = Some (BString (todo.Title (Decode_value r)))"
    "map_of (apply_set ?obj doc) ''updated_at'' =
       Some (BDateTime (RFC3339_round_trip (Now e 0)))"
    by (simp_all add: map_of_apply_set_title)
  have kept:
    "map_of (apply_set ?obj doc) ''_id'' = Some (BObjectID oid)"
    "map_of (apply_set ?obj doc) ''iscompleted'' = map_of doc ''iscompleted''"
    "map_of (apply_set ?obj doc) ''createdat'' = map_of doc ''createdat''"
    "map_of (apply_set ?obj doc) ''updatedat'' = map_of doc ''updatedat''"
    using assms(5) by (simp_all add: map_of_apply_set_title)
  from run set_fields kept frame show ?thesis
    by blast
qed

theorem updateTodo_frame_witness:
  "updateTodo example_env
     \<lparr>URLParam_id = milk_id, Decode_error = None, Decode_value = title_only ''buy bread''\<rparr>
     [[(''_id'', BObjectID [101, 66, 240, 0, 1, 2, 3, 4, 5, 6, 7, 9]),
       (''title'', BString ''call home''),
       (''updated_at'', BDateTime 1600000000000000000)],
      milk] =
     \<lparr>responses =
        [JSON StatusOK
           (M [(''message'', JString ''Update Successful''),
               (''todo_id'', JString milk_id),
               (''result'',
                JUpdateResult
                  \<lparr>MatchedCount = 1, ModifiedCount = 1, UpsertedCount = 0,
                   UpsertedID = None\<rparr>)])],
      calls =
        [CallUpdateOne [(''_id'', BObjectID [101, 66, 240, 0, 1, 2, 3, 4, 5, 6, 7, 8])]
           [(''$set'',
             [(''title'', BString ''buy bread''),
              (''updated_at'', BDateTime 1700000000000000000)])]
           True],
      store =
        [[(''_id'', BObjectID [101, 66, 240, 0, 1, 2, 3, 4, 5, 6, 7, 9]),
          (''title'', BString ''call home''),
          (''updated_at'', BDateTime 1600000000000000000)],
         [(''_id'', BObjectID [101, 66, 240, 0, 1, 2, 3, 4, 5, 6, 7, 8]),
          (''title'', BString ''buy bread''),
          (''iscompleted'', BBoolean False),
          (''createdat'', BDateTime 1700000000123000000),
          (''updatedat'', BDateTime 1700000000123000000),
          (''updated_at'', BDateTime 1700000000000000000)]],
      outcome = Returned\<rparr>"
proof -
  let ?r = "\<lparr>URLParam_id = milk_id, Decode_error = None,
             Decode_value = title_only ''buy bread''\<rparr>"
  let ?other = "[(''_id'', BObjectID [101, 66, 240, 0, 1, 2, 3, 4, 5, 6, 7, 9]),
                 (''title'', BString ''call home''),
                 (''updated_at'', BDateTime 1600000000000000000)]"
  have parse:
    "ObjectIDFromHex (TrimSpace (URLParam_id ?r)) = Inr [101, 66, 240, 0, 1, 2, 3, 4, 5, 6, 7, 8]"
    by code_simp
  have title: "todo.Title (Decode_value ?r) \<noteq> []"
    by (simp add: title_only_def)
  have works: "UpdateOne_failure example_env = None"
    by (simp add: example_env_def)
  have coll: "[?other, milk] = [?other] @ milk # []"
    by simp
  have present: "map_of milk ''_id'' = Some (BObjectID [101, 66, 240, 0, 1, 2, 3, 4, 5, 6, 7, 8])"
    by (simp add: milk_def)
  have first:
    "\<forall>d \<in> set [?other].
       map_of d ''_id'' \<noteq> Some (BObjectID [101, 66, 240, 0, 1, 2, 3, 4, 5, 6, 7, 8])"
    by simp
  have now: "RFC3339_round_trip (Now example_env 0) = 1700000000000000000"
    by code_simp
  have run:
    "updateTodo example_env ?r [?other, milk] =
       \<lparr>responses =
          [JSON StatusOK
             (M [(''message'', JString ''Update Successful''),
                 (''todo_id'', JString milk_id),
                 (''result'',
                  JUpdateResult
                    \<lparr>MatchedCount = 1, ModifiedCount = 1, UpsertedCount = 0,
                     UpsertedID = None\<rparr>)])],
        calls = calls (updateTodo example_env ?r [?other, milk]),
        store =
          [?other,
           [(''_id'', BObjectID [101, 66, 240, 0, 1, 2, 3, 4, 5, 6, 7, 8]),
            (''title'', BString ''buy bread''),
            (''iscompleted'', BBoolean False),
            (''createdat'', BDateTime 1700000000123000000),
            (''updatedat'', BDateTime 1700000000123000000),
            (''updated_at'', BDateTime 1700000000000000000)]],
        outcome = Returned\<rparr>"
    by code_simp
  from updateTodo_frame [OF parse title works coll present first] now run
  show ?thesis
    by (simp add: title_only_def)
qed

text \<open>
  C8. For every delete request whose identifier parses (and a storage client that
  reports no failure): when no record has the identifier, the handler still answers 200
  with the message \<^verbatim>\<open>Todo deletion successful\<close>, and the collection is as it was; and
  in a collection of unique identifiers, deleting the same identifier a second time
  leaves the collection as the first delete left it and is answered with the same
  status and message, 200.
\<close>

theorem deleteTodo_idempotent:
  assumes "ObjectIDFromHex (TrimSpace (URLParam_id r)) = Inr oid"
    and "DeleteOne_failure e = None"
    and "DeleteOne_failure e' = None"
  shows
    "((\<forall>d \<in> set coll. map_of d ''_id'' \<noteq> Some (BObjectID oid)) \<longrightarrow>
        deleteTodo e r coll =
          \<lparr>responses =
             [JSON StatusOK
                (M [(''message'', JString ''Todo deletion successful''),
                    (''todo_id'', JString (TrimSpace (URLParam_id r))),
                    (''result'', JDeleteResult \<lparr>DeletedCount = 0\<rparr>)])],
           calls = [CallDeleteOne [(''_id'', BObjectID oid)]],
           store = coll, outcome = Returned\<rparr>) \<and>
     (unique_ids coll \<longrightarrow>
        store (deleteTodo e' r (store (deleteTodo e r coll))) = store (deleteTodo e r coll) \<and>
        map status (responses (deleteTodo e r coll)) = [StatusOK] \<and>
        map status (responses (deleteTodo e' r (store (deleteTodo e r coll)))) = [StatusOK] \<and>
        map message (responses (deleteTodo e' r (store (deleteTodo e r coll)))) =
          map message (responses (deleteTodo e r coll)))"
proof (intro conjI impI)
  let ?flt = "[(''_id'', BObjectID oid)]"
  note first = deleteTodo_succeeds [OF assms(1) assms(2)]
  note second = deleteTodo_succeeds [OF assms(1) assms(3)]
  {
    assume none: "\<forall>d \<in> set coll. map_of d ''_id'' \<noteq> Some (BObjectID oid)"
    then have "delete_first (matches ?flt) coll = coll"
      by (simp add: delete_first_no_match)
    moreover from none have "\<not> list_ex (matches ?flt) coll"
      by (simp add: list_ex_iff)
    ultimately show
      "deleteTodo e r coll =
         \<lparr>responses =
            [JSON StatusOK
               (M [(''message'', JString ''Todo deletion successful''),
                   (''todo_id'', JString (TrimSpace (URLParam_id r))),
                   (''result'', JDeleteResult \<lparr>DeletedCount = 0\<rparr>)])],
          calls = [CallDeleteOne ?flt], store = coll, outcome = Returned\<rparr>"
      by (simp add: first)
  }
  {
    assume "unique_ids coll"
    then show "store (deleteTodo e' r (store (deleteTodo e r coll))) = store (deleteTodo e r coll)"
      by (simp add: first second delete_first_twice)
  }
  show "map status (responses (deleteTodo e r coll)) = [StatusOK]"
    by (simp add: first)
  show "map status (responses (deleteTodo e' r (store (deleteTodo e r coll)))) = [StatusOK]"
    by (simp add: second)
  show "map message (responses (deleteTodo e' r (store (deleteTodo e r coll)))) =
        map message (responses (deleteTodo e r coll))"
    by (simp add: first second message_def)
qed

theorem deleteTodo_idempotent_witness:
  "deleteTodo example_env
     \<lparr>URLParam_id = milk_id, Decode_error = None, Decode_value = title_only []\<rparr> [] =
     \<lparr>responses =
        [JSON StatusOK
           (M [(''message'', JString ''Todo deletion successful''),
               (''todo_id'', JString milk_id),
               (''result'', JDeleteResult \<lparr>DeletedCount = 0\<rparr>)])],
      calls = [CallDeleteOne [(''_id'', BObjectID [101, 66, 240, 0, 1, 2, 3, 4, 5, 6, 7, 8])]],
      store = [], outcome = Returned\<rparr> \<and>
   store
     (deleteTodo example_env
        \<lparr>URLParam_id = milk_id, Decode_error = None, Decode_value = title_only []\<rparr>
        [milk]) = [] \<and>
   store
     (deleteTodo example_env
        \<lparr>URLParam_id = milk_id, Decode_error = None, Decode_value = title_only []\<rparr>
        (store
           (deleteTodo example_env
              \<lparr>URLParam_id = milk_id, Decode_error = None, Decode_value = title_only []\<rparr>
              [milk]))) = [] \<and>
   map status
     (responses
        (deleteTodo example_env
           \<lparr>URLParam_id = milk_id, Decode_error = None, Decode_value = title_only []\<rparr>
           (store
              (deleteTodo example_env
                 \<lparr>URLParam_id = milk_id, Decode_error = None, Decode_value = title_only []\<rparr>
                 [milk])))) = [StatusOK]"
proof -
  let ?r = "\<lparr>URLParam_id = milk_id, Decode_error = None, Decode_value = title_only []\<rparr>"
  have parse:
    "ObjectIDFromHex (TrimSpace (URLParam_id ?r)) = Inr [101, 66, 240, 0, 1, 2, 3, 4, 5, 6, 7, 8]"
    by code_simp
  have trim: "TrimSpace (URLParam_id ?r) = milk_id"
    by code_simp
  have works: "DeleteOne_failure example_env = None"
    by (simp add: example_env_def)
  have unique: "unique_ids [milk]"
    by code_simp
  have once: "store (deleteTodo example_env ?r [milk]) = []"
    by code_simp
  from deleteTodo_idempotent [OF parse works works, of "[]"]
    deleteTodo_idempotent [OF parse works works, of "[milk]"] unique once trim
  show ?thesis
    by simp
qed

text \<open>
  C9. For every list request: when the query of the collection fails, the handler
  answers 500 with the message \<^verbatim>\<open>Failed to fetch todo\<close> and the error of the query,
  and returns; when the query succeeds and reading the cursor fails, the handler ends
  the whole process with that error and has written no response.
\<close>

theorem fetchTodos_failures:
  "(Find_failure e = Some err \<longrightarrow>
      fetchTodos e coll =
        \<lparr>responses =
           [JSON StatusInternalServerError
              (M [(''message'', JString ''Failed to fetch todo''), (''error'', JError err)])],
         calls = [CallFind []], store = coll, outcome = Returned\<rparr>) \<and>
   (Find_failure e = None \<and> All_result e coll = Inl err \<longrightarrow>
      responses (fetchTodos e coll) = [] \<and> outcome (fetchTodos e coll) = Fatal err)"
  by (simp add: fetchTodos_def Find_def)

theorem fetchTodos_failures_witness:
  "fetchTodos (example_env\<lparr>Find_failure := Some (BackendError ''no connection'')\<rparr>) [milk] =
     \<lparr>responses =
        [JSON StatusInternalServerError
           (M [(''message'', JString ''Failed to fetch todo''),
               (''error'', JError (BackendError ''no connection''))])],
      calls = [CallFind []], store = [milk], outcome = Returned\<rparr> \<and>
   responses
     (fetchTodos (example_env\<lparr>All_result := (\<lambda>docs. Inl (DecodeError ''title''))\<rparr>) [milk]) = [] \<and>
   outcome
     (fetchTodos (example_env\<lparr>All_result := (\<lambda>docs. Inl (DecodeError ''title''))\<rparr>) [milk]) =
     Fatal (DecodeError ''title'')"
  using
    fetchTodos_failures
      [of "example_env\<lparr>Find_failure := Some (BackendError ''no connection'')\<rparr>"
          "BackendError ''no connection''" "[milk]"]
    fetchTodos_failures
      [of "example_env\<lparr>All_result := (\<lambda>docs. Inl (DecodeError ''title''))\<rparr>"
          "DecodeError ''title''" "[milk]"]
  by (simp add: example_env_def)

text \<open>
  C10. For every update request whose identifier parses and matches no record, with a
  title that is not empty (and a storage client that reports no failure): the update,
  issued with \<^verbatim>\<open>upsert\<close>, adds one document to the collection, and that document holds
  the identifier, \<^verbatim>\<open>title\<close> and \<^verbatim>\<open>updated_at\<close> and nothing else: neither a
  completion flag nor a creation time.
\<close>

theorem updateTodo_upsert:
  assumes "ObjectIDFromHex (TrimSpace (URLParam_id r)) = Inr oid"
    and "todo.Title (Decode_value r) \<noteq> []"
    and "UpdateOne_failure e = None"
    and "\<forall>d \<in> set coll. map_of d ''_id'' \<noteq> Some (BObjectID oid)"
  shows
    "calls (updateTodo e r coll) =
       [CallUpdateOne [(''_id'', BObjectID oid)]
          [(''$set'',
            [(''title'', BString (todo.Title (Decode_value r))),
             (''updated_at'', BDateTime (RFC3339_round_trip (Now e 0)))])]
          True] \<and>
     store (updateTodo e r coll) =
       coll @
       [[(''_id'', BObjectID oid),
         (''title'', BString (todo.Title (Decode_value r))),
         (''updated_at'', BDateTime (RFC3339_round_trip (Now e 0)))]]"
proof -
  have "find (matches [(''_id'', BObjectID oid)]) coll = None"
    using assms(4) by (simp add: find_no_match)
  with assms(1-3) show ?thesis
    by (simp add: updateTodo_def Let_def UpdateOne_def apply_set_def)
qed

theorem updateTodo_upsert_witness:
  "updateTodo example_env
     \<lparr>URLParam_id = ''6542f0000102030405060709'', Decode_error = None,
      Decode_value = title_only ''buy bread''\<rparr> [milk] =
     \<lparr>responses =
        [JSON StatusOK
           (M [(''message'', JString ''Update Successful''),
               (''todo_id'', JString ''6542f0000102030405060709''),
               (''result'',
                JUpdateResult
                  \<lparr>MatchedCount = 0, ModifiedCount = 0, UpsertedCount = 1,
                   UpsertedID = Some (BObjectID [101, 66, 240, 0, 1, 2, 3, 4, 5, 6, 7, 9])\<rparr>)])],
      calls =
        [CallUpdateOne [(''_id'', BObjectID [101, 66, 240, 0, 1, 2, 3, 4, 5, 6, 7, 9])]
           [(''$set'',
             [(''title'', BString ''buy bread''),
              (''updated_at'', BDateTime 1700000000000000000)])]
           True],
      store =
        [milk,
         [(''_id'', BObjectID [101, 66, 240, 0, 1, 2, 3, 4, 5, 6, 7, 9]),
          (''title'', BString ''buy bread''),
          (''updated_at'', BDateTime 1700000000000000000)]],
      outcome = Returned\<rparr>"
proof -
  let ?r = "\<lparr>URLParam_id = ''6542f0000102030405060709'', Decode_error = None,
             Decode_value = title_only ''buy bread''\<rparr>"
  have parse:
    "ObjectIDFromHex (TrimSpace (URLParam_id ?r)) = Inr [101, 66, 240, 0, 1, 2, 3, 4, 5, 6, 7, 9]"
    by code_simp
  have title: "todo.Title (Decode_value ?r) \<noteq> []"
    by (simp add: title_only_def)
  have works: "UpdateOne_failure example_env = None"
    by (simp add: example_env_def)
  have absent:
    "\<forall>d \<in> set [milk].
       map_of d ''_id'' \<noteq> Some (BObjectID [101, 66, 240, 0, 1, 2, 3, 4, 5, 6, 7, 9])"
    by (simp add: milk_def)
  have now: "RFC3339_round_trip (Now example_env 0) = 1700000000000000000"
    by code_simp
  have run:
    "updateTodo example_env ?r [milk] =
       \<lparr>responses =
          [JSON StatusOK
             (M [(''message'', JString ''Update Successful''),
                 (''todo_id'', JString ''6542f0000102030405060709''),
                 (''result'',
                  JUpdateResult
                    \<lparr>MatchedCount = 0, ModifiedCount = 0, UpsertedCount = 1,
                     UpsertedID =
                       Some (BObjectID [101, 66, 240, 0, 1, 2, 3, 4, 5, 6, 7, 9])\<rparr>)])],
        calls = calls (updateTodo example_env ?r [milk]),
        store = store (updateTodo example_env ?r [milk]),
        outcome = Returned\<rparr>"
    by code_simp
  from updateTodo_upsert [OF parse title works absent] now run
  show ?thesis
    by (simp add: title_only_def)
qed

end
